theory Spec2Isabelle
  imports Main
begin

section \<open>Session storage\<close>

text \<open>
  The session stores of \<^verbatim>\<open>shared/storage\<close>. Timestamps are the integers
  \<^verbatim>\<open>Date.now()\<close> returns (milliseconds); every operation takes the value the
  clock shows when it reads it as an argument, and returns the store it leaves behind.
\<close>

record SessionRecord =
  created_at :: int

record SessionEntry =
  srecord :: SessionRecord
  expiresAt :: int

text \<open>
  \<^verbatim>\<open>MemorySessionStore\<close>: the \<^verbatim>\<open>sessions\<close> map and the \<^verbatim>\<open>ttlMs\<close> the
  constructor was given. The cleanup timer is represented by the sweep it runs,
  \<open>MemorySessionStore_cleanup\<close>.
\<close>

record MemorySessionStore =
  sessions :: "string \<rightharpoonup> SessionEntry"
  ttlMs :: int

definition DEFAULT_TTL_MS :: int where
  "DEFAULT_TTL_MS = 24 * 60 * 60 * 1000"

definition MemorySessionStore_new :: "int \<Rightarrow> MemorySessionStore" where
  "MemorySessionStore_new ttl = \<lparr>sessions = Map.empty, ttlMs = ttl\<rparr>"

definition MemorySessionStore_ensure ::
  "MemorySessionStore \<Rightarrow> string \<Rightarrow> int \<Rightarrow> MemorySessionStore" where
  "MemorySessionStore_ensure s sessionId now =
     (if sessions s sessionId = None
      then s\<lparr>sessions := (sessions s)(sessionId \<mapsto>
             \<lparr>srecord = \<lparr>created_at = now\<rparr>, expiresAt = now + ttlMs s\<rparr>)\<rparr>
      else s)"

definition MemorySessionStore_get ::
  "MemorySessionStore \<Rightarrow> string \<Rightarrow> int \<Rightarrow> MemorySessionStore \<times> SessionRecord option" where
  "MemorySessionStore_get s sessionId now =
     (case sessions s sessionId of
        None \<Rightarrow> (s, None)
      | Some entry \<Rightarrow>
          if now > expiresAt entry
          then (s\<lparr>sessions := (sessions s)(sessionId := None)\<rparr>, None)
          else (s, Some (srecord entry)))"

definition MemorySessionStore_put ::
  "MemorySessionStore \<Rightarrow> string \<Rightarrow> SessionRecord \<Rightarrow> int \<Rightarrow> MemorySessionStore" where
  "MemorySessionStore_put s sessionId v now =
     s\<lparr>sessions := (sessions s)(sessionId \<mapsto> \<lparr>srecord = v, expiresAt = now + ttlMs s\<rparr>)\<rparr>"

definition MemorySessionStore_delete ::
  "MemorySessionStore \<Rightarrow> string \<Rightarrow> MemorySessionStore" where
  "MemorySessionStore_delete s sessionId = s\<lparr>sessions := (sessions s)(sessionId := None)\<rparr>"

definition MemorySessionStore_cleanup :: "MemorySessionStore \<Rightarrow> int \<Rightarrow> MemorySessionStore" where
  "MemorySessionStore_cleanup s now =
     s\<lparr>sessions := (\<lambda>k. case sessions s k of
                          None \<Rightarrow> None
                        | Some entry \<Rightarrow> if now > expiresAt entry then None else Some entry)\<rparr>"

subsection \<open>The KV-backed store\<close>

text \<open>
  Every \<^verbatim>\<open>throw\<close> and rejected promise is a value: \<open>Inl\<close> of the error.
\<close>

datatype error = KvError | CryptoError | SyntaxError

text \<open>
  \<^verbatim>\<open>JSON.stringify\<close> of a \<^verbatim>\<open>SessionRecord\<close> whose \<^verbatim>\<open>created_at\<close> is an
  integer: the decimal numeral inside the one-key object.
\<close>

definition digit_char :: "nat \<Rightarrow> char" where
  "digit_char d = ''0123456789'' ! d"

function nat_to_string :: "nat \<Rightarrow> string" where
  "nat_to_string n =
     (if n < 10 then [digit_char n] else nat_to_string (n div 10) @ [digit_char (n mod 10)])"
  by pat_completeness auto
termination
  by (relation "measure id") auto

declare nat_to_string.simps [simp del]

definition Number_toString :: "int \<Rightarrow> string" where
  "Number_toString i =
     (if i < 0 then CHR ''-'' # nat_to_string (nat (- i)) else nat_to_string (nat i))"

definition JSON_stringify :: "SessionRecord \<Rightarrow> string" where
  \<open>JSON_stringify v = ''{"created_at":'' @ Number_toString (created_at v) @ ''}''\<close>

text \<open>
  \<^verbatim>\<open>JSON.parse(decrypted) as SessionRecord\<close> is an argument \<open>parse\<close> of the operations
  that call it: \<open>Inl\<close> when it throws, \<open>Inr None\<close> for a falsy value such as
  \<^verbatim>\<open>null\<close>, \<open>Inr (Some r)\<close> for an object read as a record.
\<close>

type_synonym JSON_parse = "string \<Rightarrow> error + SessionRecord option"

text \<open>
  The external service behind the \<^verbatim>\<open>KVNamespace\<close> interface: the values it holds,
  each with the time, in milliseconds, at which it expires, and for each operation
  whether the service throws when called. A value written with \<^verbatim>\<open>expirationTtl\<close>
  seconds at time \<open>now\<close> expires at \<open>now + 1000 * expirationTtl\<close>, and a read at or
  after that time finds nothing. The service's clock is taken to agree with
  \<^verbatim>\<open>Date.now()\<close>: each store operation passes the service the time it is given.
\<close>

record KVNamespace =
  kv_entries :: "string \<rightharpoonup> string \<times> int"
  get_throws :: bool
  put_throws :: bool
  delete_throws :: bool

definition KVNamespace_get :: "KVNamespace \<Rightarrow> string \<Rightarrow> int \<Rightarrow> error + string option" where
  "KVNamespace_get ns k now =
     (if get_throws ns then Inl KvError
      else Inr (case kv_entries ns k of
                  None \<Rightarrow> None
                | Some (v, expiration) \<Rightarrow> if now < expiration then Some v else None))"

definition KVNamespace_put ::
  "KVNamespace \<Rightarrow> string \<Rightarrow> string \<Rightarrow> nat \<Rightarrow> int \<Rightarrow> error + KVNamespace" where
  "KVNamespace_put ns k v expirationTtl now =
     (if put_throws ns then Inl KvError
      else Inr (ns\<lparr>kv_entries :=
                   (kv_entries ns)(k \<mapsto> (v, now + 1000 * int expirationTtl))\<rparr>))"

definition KVNamespace_delete :: "KVNamespace \<Rightarrow> string \<Rightarrow> error + KVNamespace" where
  "KVNamespace_delete ns k =
     (if delete_throws ns then Inl KvError
      else Inr (ns\<lparr>kv_entries := (kv_entries ns)(k := None)\<rparr>))"

definition SESSION_TTL_SECONDS :: nat where
  "SESSION_TTL_SECONDS = 24 * 60 * 60"

record KvSessionStore =
  kv :: KVNamespace
  encrypt :: "string \<Rightarrow> error + string"
  decrypt :: "string \<Rightarrow> error + string"
  fallback :: "MemorySessionStore option"

definition key :: "string \<Rightarrow> string" where
  "key sessionId = ''session:'' @ sessionId"

text \<open>\<^verbatim>\<open>this.fallback?.get(sessionId) ?? null\<close>, with the eviction the fallback may do.\<close>

definition fallback_get ::
  "KvSessionStore \<Rightarrow> string \<Rightarrow> int \<Rightarrow> KvSessionStore \<times> SessionRecord option" where
  "fallback_get st sessionId now =
     (case fallback st of
        None \<Rightarrow> (st, None)
      | Some f \<Rightarrow>
          (case MemorySessionStore_get f sessionId now of
             (f', r) \<Rightarrow> (st\<lparr>fallback := Some f'\<rparr>, r)))"

text \<open>\<^verbatim>\<open>if (this.fallback) await this.fallback.put(sessionId, value)\<close>.\<close>

definition fallback_put ::
  "KvSessionStore \<Rightarrow> string \<Rightarrow> SessionRecord \<Rightarrow> int \<Rightarrow> KvSessionStore" where
  "fallback_put st sessionId v now =
     st\<lparr>fallback := map_option (\<lambda>f. MemorySessionStore_put f sessionId v now) (fallback st)\<rparr>"

definition KvSessionStore_get ::
  "JSON_parse \<Rightarrow> KvSessionStore \<Rightarrow> string \<Rightarrow> int \<Rightarrow> KvSessionStore \<times> SessionRecord option" where
  "KvSessionStore_get parse st sessionId now =
     (case KVNamespace_get (kv st) (key sessionId) now of
        Inl _ \<Rightarrow> fallback_get st sessionId now
      | Inr None \<Rightarrow> fallback_get st sessionId now
      | Inr (Some raw) \<Rightarrow>
          if raw = [] then fallback_get st sessionId now
          else (case decrypt st raw of
                  Inl _ \<Rightarrow> fallback_get st sessionId now
                | Inr decrypted \<Rightarrow>
                    (case parse decrypted of
                       Inl _ \<Rightarrow> fallback_get st sessionId now
                     | Inr r \<Rightarrow> (st, r))))"

definition KvSessionStore_put ::
  "KvSessionStore \<Rightarrow> string \<Rightarrow> SessionRecord \<Rightarrow> int \<Rightarrow> KvSessionStore" where
  "KvSessionStore_put st sessionId v now =
     (case encrypt st (JSON_stringify v) of
        Inl _ \<Rightarrow> fallback_put st sessionId v now
      | Inr encrypted \<Rightarrow>
          (case KVNamespace_put (kv st) (key sessionId) encrypted SESSION_TTL_SECONDS now of
             Inl _ \<Rightarrow> fallback_put st sessionId v now
           | Inr ns \<Rightarrow> fallback_put (st\<lparr>kv := ns\<rparr>) sessionId v now))"


definition KvSessionStore_delete :: "KvSessionStore \<Rightarrow> string \<Rightarrow> KvSessionStore" where
  "KvSessionStore_delete st sessionId =
     (let st1 = (case KVNamespace_delete (kv st) (key sessionId) of
                   Inl _ \<Rightarrow> st
                 | Inr ns \<Rightarrow> st\<lparr>kv := ns\<rparr>)
      in st1\<lparr>fallback := map_option (\<lambda>f. MemorySessionStore_delete f sessionId) (fallback st1)\<rparr>)"

section \<open>JavaScript strings and values\<close>

text \<open>
  A string is a list of code units below 256: header values are byte strings, and of the
  configuration only comparisons with such strings and with ASCII literals are read.
  \<open>js_whitespace\<close> is the \<^verbatim>\<open>WhiteSpace\<close> and \<^verbatim>\<open>LineTerminator\<close> code points in
  that range, which is what \<^verbatim>\<open>trim()\<close> strips and \<^verbatim>\<open>\s\<close> matches;
  \<open>line_terminator\<close> is what \<^verbatim>\<open>.\<close> does not match.
\<close>

definition js_whitespace :: "char \<Rightarrow> bool" where
  "js_whitespace c =
     (c = CHR 0x09 \<or> c = CHR 0x0A \<or> c = CHR 0x0B \<or> c = CHR 0x0C \<or> c = CHR 0x0D
      \<or> c = CHR 0x20 \<or> c = CHR 0xA0)"

definition line_terminator :: "char \<Rightarrow> bool" where
  "line_terminator c = (c = CHR 0x0A \<or> c = CHR 0x0D)"

definition trim :: "string \<Rightarrow> string" where
  "trim s = rev (dropWhile js_whitespace (rev (dropWhile js_whitespace s)))"

text \<open>
  \<^verbatim>\<open>toLowerCase()\<close> on code units below 256: the ASCII capitals and the capitals
  of the Latin-1 block map to their small letters, every other code unit to itself.
\<close>

definition upper_case :: string where
  "upper_case = ''ABCDEFGHIJKLMNOPQRSTUVWXYZ'' @
     [CHR 0xC0, CHR 0xC1, CHR 0xC2, CHR 0xC3, CHR 0xC4, CHR 0xC5, CHR 0xC6, CHR 0xC7,
      CHR 0xC8, CHR 0xC9, CHR 0xCA, CHR 0xCB, CHR 0xCC, CHR 0xCD, CHR 0xCE, CHR 0xCF,
      CHR 0xD0, CHR 0xD1, CHR 0xD2, CHR 0xD3, CHR 0xD4, CHR 0xD5, CHR 0xD6, CHR 0xD8,
      CHR 0xD9, CHR 0xDA, CHR 0xDB, CHR 0xDC, CHR 0xDD, CHR 0xDE]"

definition lower_case :: string where
  "lower_case = ''abcdefghijklmnopqrstuvwxyz'' @
     [CHR 0xE0, CHR 0xE1, CHR 0xE2, CHR 0xE3, CHR 0xE4, CHR 0xE5, CHR 0xE6, CHR 0xE7,
      CHR 0xE8, CHR 0xE9, CHR 0xEA, CHR 0xEB, CHR 0xEC, CHR 0xED, CHR 0xEE, CHR 0xEF,
      CHR 0xF0, CHR 0xF1, CHR 0xF2, CHR 0xF3, CHR 0xF4, CHR 0xF5, CHR 0xF6, CHR 0xF8,
      CHR 0xF9, CHR 0xFA, CHR 0xFB, CHR 0xFC, CHR 0xFD, CHR 0xFE]"

definition toLowerCase_char :: "char \<Rightarrow> char" where
  "toLowerCase_char c = (case map_of (zip upper_case lower_case) c of None \<Rightarrow> c | Some l \<Rightarrow> l)"

definition toLowerCase :: "string \<Rightarrow> string" where
  "toLowerCase s = map toLowerCase_char s"

text \<open>\<^verbatim>\<open>s.split(sep)\<close> for a one-character separator, and \<^verbatim>\<open>s.split(sep, limit)\<close>.\<close>

fun String_split :: "char \<Rightarrow> string \<Rightarrow> string list" where
  "String_split sep [] = [[]]"
| "String_split sep (c # cs) =
     (if c = sep then [] # String_split sep cs
      else (case String_split sep cs of
              [] \<Rightarrow> [[c]]
            | p # ps \<Rightarrow> (c # p) # ps))"

definition String_split_limit :: "char \<Rightarrow> nat \<Rightarrow> string \<Rightarrow> string list" where
  "String_split_limit sep limit s = take limit (String_split sep s)"

text \<open>
  A value of type \<^verbatim>\<open>string | undefined\<close> is a \<open>string option\<close>; it is truthy when
  it is a non-empty string.
\<close>

fun truthy :: "string option \<Rightarrow> bool" where
  "truthy None = False"
| "truthy (Some s) = (s \<noteq> [])"

text \<open>The values of type \<^verbatim>\<open>unknown\<close> an environment holds.\<close>

datatype js_value = JUndefined | JNull | JBoolean bool | JString string

fun js_truthy :: "js_value \<Rightarrow> bool" where
  "js_truthy JUndefined = False"
| "js_truthy JNull = False"
| "js_truthy (JBoolean b) = b"
| "js_truthy (JString s) = (s \<noteq> [])"

fun String_of :: "js_value \<Rightarrow> string" where
  "String_of JUndefined = ''undefined''"
| "String_of JNull = ''null''"
| "String_of (JBoolean b) = (if b then ''true'' else ''false'')"
| "String_of (JString s) = s"

text \<open>\<^verbatim>\<open>value || dflt\<close>.\<close>

definition js_or :: "js_value \<Rightarrow> js_value \<Rightarrow> js_value" where
  "js_or v dflt = (if js_truthy v then v else dflt)"

section \<open>Configuration\<close>

datatype AuthStrategyType = StrategyBearer | StrategyNone

text \<open>
  The fields of \<^verbatim>\<open>UnifiedConfig\<close> that the request gate reads, and the entries of
  the environment they are parsed from. The source reads \<^verbatim>\<open>AUTH_STRATEGY\<close>,
  \<^verbatim>\<open>BEARER_TOKEN\<close> and \<^verbatim>\<open>NODE_ENV\<close> under a cast to a string type, so they are
  strings or absent; \<^verbatim>\<open>AUTH_ENABLED\<close> and \<^verbatim>\<open>MCP_PROTOCOL_VERSION\<close> are read as
  \<^verbatim>\<open>unknown\<close>.
\<close>

record UnifiedConfig =
  NODE_ENV :: string
  MCP_PROTOCOL_VERSION :: string
  AUTH_STRATEGY :: AuthStrategyType
  AUTH_ENABLED :: bool
  BEARER_TOKEN :: "string option"

record Env =
  env_NODE_ENV :: "string option"
  env_MCP_PROTOCOL_VERSION :: js_value
  env_AUTH_STRATEGY :: "string option"
  env_AUTH_ENABLED :: js_value
  env_BEARER_TOKEN :: "string option"

definition parseBoolean :: "js_value \<Rightarrow> bool" where
  "parseBoolean v = (toLowerCase (String_of (js_or v (JString ''false''))) = ''true'')"

definition parseAuthStrategy :: "Env \<Rightarrow> AuthStrategyType" where
  "parseAuthStrategy env =
     (let explicit = map_option toLowerCase (env_AUTH_STRATEGY env)
      in if explicit = Some ''none''
            \<or> env_AUTH_ENABLED env = JString ''false''
            \<or> env_AUTH_ENABLED env = JBoolean False
         then StrategyNone
         else if truthy (env_BEARER_TOKEN env) \<or> parseBoolean (env_AUTH_ENABLED env)
         then StrategyBearer
         else StrategyNone)"

definition parseConfig :: "Env \<Rightarrow> UnifiedConfig" where
  "parseConfig env =
     (let authStrategy = parseAuthStrategy env
      in \<lparr>NODE_ENV = (case env_NODE_ENV env of
                         None \<Rightarrow> ''development''
                       | Some v \<Rightarrow> if v = [] then ''development'' else v),
          MCP_PROTOCOL_VERSION =
            String_of (js_or (env_MCP_PROTOCOL_VERSION env) (JString ''2025-06-18'')),
          AUTH_STRATEGY = authStrategy,
          AUTH_ENABLED = (authStrategy = StrategyBearer),
          BEARER_TOKEN = env_BEARER_TOKEN env\<rparr>)"

section \<open>The request gate\<close>

text \<open>
  A request is the origin of its URL (\<^verbatim>\<open>new URL(request.url).origin\<close>) and its
  headers, a map from the lower-case header name, as the \<^verbatim>\<open>Headers\<close> class keeps it.
\<close>

type_synonym Headers = "string \<rightharpoonup> string"

record Request =
  url_origin :: string
  headers :: Headers

text \<open>
  \<^verbatim>\<open>validateOrigin\<close> and \<^verbatim>\<open>validateProtocolVersion\<close> of
  \<^verbatim>\<open>shared/mcp/security.js\<close> are not among the sources; the adapters take them as
  the argument \<open>sec\<close>. Each returns \<open>None\<close> when it returns normally and \<open>Some m\<close>
  when it throws an \<^verbatim>\<open>Error\<close> whose message is \<open>m\<close>.
\<close>

record Security =
  validateOrigin :: "Headers \<Rightarrow> bool \<Rightarrow> string option"
  validateProtocolVersion :: "Headers \<Rightarrow> string \<Rightarrow> string option"

text \<open>The two calls both adapters open with; the result is the first error thrown.\<close>

definition validate :: "Security \<Rightarrow> Request \<Rightarrow> UnifiedConfig \<Rightarrow> string option" where
  "validate sec req config =
     (case validateOrigin sec (headers req) (NODE_ENV config = ''development'') of
        Some m \<Rightarrow> Some m
      | None \<Rightarrow> validateProtocolVersion sec (headers req) (MCP_PROTOCOL_VERSION config))"

text \<open>
  The body of a response: the one \<^verbatim>\<open>buildUnauthorizedChallenge\<close> builds from the
  message it is passed, or a JSON-RPC error with the code and message the adapter wrote.
\<close>

datatype JsonBody = Unauthorized "string option" | JsonRpcError int string

record ChallengeArgs =
  origin :: string
  sid :: string
  message :: "string option"

record Challenge =
  challenge_status :: nat
  challenge_WWW_Authenticate :: string
  challenge_Mcp_Session_Id :: string
  challenge_body :: JsonBody

text \<open>
  Modelled from the spec: \<^verbatim>\<open>buildUnauthorizedChallenge\<close> of
  \<^verbatim>\<open>shared/mcp/security.js\<close> is not among the sources. The spec gives the challenge
  as status 401, the headers \<^verbatim>\<open>WWW-Authenticate: Bearer realm="MCP"[, error="<reason>"]\<close>
  and the session id, and a JSON-RPC error body. The error code of the body and the
  text used when no message is passed are not given; the body keeps the message passed.
\<close>

definition buildUnauthorizedChallenge :: "ChallengeArgs \<Rightarrow> Challenge" where
  \<open>buildUnauthorizedChallenge args =
     \<lparr>challenge_status = 401,
      challenge_WWW_Authenticate =
        (case message args of
           None \<Rightarrow> ''Bearer realm="MCP"''
         | Some reason \<Rightarrow> ''Bearer realm="MCP", error="'' @ reason @ ''"''),
      challenge_Mcp_Session_Id = sid args,
      challenge_body = Unauthorized (message args)\<rparr>\<close>

text \<open>
  A response: status, the two headers the adapters set by name, and the body. The
  content type and the CORS headers are left out.
\<close>

record Response =
  status :: nat
  Mcp_Session_Id :: "string option"
  WWW_Authenticate :: "string option"
  body :: JsonBody

subsection \<open>The Hono middleware\<close>

record AuthContext =
  strategy :: AuthStrategyType
  authHeaders_authorization :: string
  resolvedHeaders_authorization :: string

text \<open>What the middleware does with the request: \<^verbatim>\<open>next()\<close>, after attaching an
  auth context or not, or a response of its own.\<close>

datatype HonoResult = Next "AuthContext option" | Respond Response

definition challengeResponse :: "string \<Rightarrow> string \<Rightarrow> string option \<Rightarrow> Response" where
  "challengeResponse orig sessionId msg =
     (let challenge = buildUnauthorizedChallenge \<lparr>origin = orig, sid = sessionId, message = msg\<rparr>
      in \<lparr>status = challenge_status challenge,
          Mcp_Session_Id = Some sessionId,
          WWW_Authenticate = Some (challenge_WWW_Authenticate challenge),
          body = challenge_body challenge\<rparr>)"

text \<open>
  \<^verbatim>\<open>const [scheme, token] = auth.split(' ', 2)\<close> and
  \<^verbatim>\<open>scheme?.toLowerCase() === 'bearer' ? token?.trim() : ''\<close>; \<open>None\<close> is
  \<^verbatim>\<open>undefined\<close>. The split yields one piece at least, so the first case does not
  arise.
\<close>

definition hono_bearer :: "string \<Rightarrow> string option" where
  "hono_bearer auth =
     (case String_split_limit (CHR '' '') 2 auth of
        [] \<Rightarrow> Some []
      | [scheme] \<Rightarrow> if toLowerCase scheme = ''bearer'' then None else Some []
      | scheme # token # _ \<Rightarrow>
          if toLowerCase scheme = ''bearer'' then Some (trim token) else Some [])"

text \<open>
  The middleware, on the validators \<open>sec\<close>, the configuration, the request and the value
  \<^verbatim>\<open>randomUUID()\<close> would return. The \<^verbatim>\<open>catch\<close> block is the first branch.
\<close>

definition createMcpSecurityMiddleware ::
  "Security \<Rightarrow> UnifiedConfig \<Rightarrow> Request \<Rightarrow> string \<Rightarrow> HonoResult" where
  "createMcpSecurityMiddleware sec config req uuid =
     (case validate sec req config of
        Some error_message \<Rightarrow>
          Respond \<lparr>status = 500, Mcp_Session_Id = None, WWW_Authenticate = None,
                   body = JsonRpcError (- 32603)
                     (if error_message = [] then ''Internal server error'' else error_message)\<rparr>
      | None \<Rightarrow>
          if \<not> AUTH_ENABLED config \<or> AUTH_STRATEGY config = StrategyNone then Next None
          else
            let auth = headers req ''authorization'';
                sessionId = (case headers req ''mcp-session-id'' of Some v \<Rightarrow> v | None \<Rightarrow> uuid);
                orig = url_origin req
            in case auth of
                 None \<Rightarrow> Respond (challengeResponse orig sessionId None)
               | Some a \<Rightarrow>
                   if a = [] then Respond (challengeResponse orig sessionId None)
                   else
                     let bearer = hono_bearer a
                     in if \<not> truthy bearer
                        then Respond (challengeResponse orig sessionId (Some ''Bearer token required''))
                        else if AUTH_STRATEGY config = StrategyBearer
                        then
                          if \<not> truthy (BEARER_TOKEN config)
                          then Respond (challengeResponse orig sessionId (Some ''Server misconfigured''))
                          else if bearer \<noteq> BEARER_TOKEN config
                          then Respond (challengeResponse orig sessionId (Some ''Invalid token''))
                          else Next (Some \<lparr>strategy = StrategyBearer,
                                            authHeaders_authorization = a,
                                            resolvedHeaders_authorization = a\<rparr>)
                        else Next None)"

subsection \<open>The Workers handler\<close>

definition buildChallengeResponse :: "string \<Rightarrow> string \<Rightarrow> string option \<Rightarrow> Response" where
  "buildChallengeResponse orig sessionId msg =
     (let challenge = buildUnauthorizedChallenge \<lparr>origin = orig, sid = sessionId, message = msg\<rparr>
      in \<lparr>status = challenge_status challenge,
          Mcp_Session_Id = Some sessionId,
          WWW_Authenticate = Some (challenge_WWW_Authenticate challenge),
          body = challenge_body challenge\<rparr>)"

text \<open>
  Group 1 of \<^verbatim>\<open>authHeader.match(/^\s*Bearer\s+(.+)$/i)\<close>, \<open>None\<close> when there is no
  match. \<^verbatim>\<open>\s*\<close> and \<^verbatim>\<open>\s+\<close> are greedy. When nothing follows the white space
  after the scheme, \<^verbatim>\<open>\s+\<close> gives its last character back to the group, if there
  are two at least and the last is not a line terminator. On code units below 256 the
  case-insensitive match of the scheme is equality after \<^verbatim>\<open>toLowerCase\<close>.
\<close>

definition match_bearer :: "string \<Rightarrow> string option" where
  "match_bearer authHeader =
     (let s1 = dropWhile js_whitespace authHeader
      in if toLowerCase (take 6 s1) \<noteq> ''bearer'' then None
         else
           let spaces = takeWhile js_whitespace (drop 6 s1);
               rest = dropWhile js_whitespace (drop 6 s1)
           in if spaces = [] then None
              else if rest \<noteq> []
              then (if list_ex line_terminator rest then None else Some rest)
              else if 2 \<le> length spaces \<and> \<not> line_terminator (last spaces)
              then Some [last spaces]
              else None)"

text \<open>\<^verbatim>\<open>authHeader?.match(...)?.[1]?.trim()\<close>.\<close>

definition workers_bearer :: "string option \<Rightarrow> string option" where
  "workers_bearer authHeader =
     (case authHeader of
        None \<Rightarrow> None
      | Some h \<Rightarrow> map_option trim (match_bearer h))"

text \<open>The handler returns \<open>None\<close> for \<^verbatim>\<open>null\<close>: the caller proceeds.\<close>

definition checkAuthAndChallenge ::
  "Security \<Rightarrow> Request \<Rightarrow> UnifiedConfig \<Rightarrow> string \<Rightarrow> Response option" where
  "checkAuthAndChallenge sec request config sessionId =
     (let orig = url_origin request
      in case validate sec request config of
           Some error_message \<Rightarrow> Some (buildChallengeResponse orig sessionId (Some error_message))
         | None \<Rightarrow>
             if \<not> AUTH_ENABLED config \<or> AUTH_STRATEGY config = StrategyNone then None
             else
               let bearer = workers_bearer (headers request ''authorization'')
               in if \<not> truthy bearer then Some (buildChallengeResponse orig sessionId None)
                  else if AUTH_STRATEGY config = StrategyBearer
                  then
                    if \<not> truthy (BEARER_TOKEN config)
                    then Some (buildChallengeResponse orig sessionId
                                 (Some ''Server misconfigured: BEARER_TOKEN not set''))
                    else if bearer \<noteq> BEARER_TOKEN config
                    then Some (buildChallengeResponse orig sessionId (Some ''Invalid token''))
                    else None
                  else None)"

section \<open>Callers, validators and sample data\<close>

text \<open>
  Modelled from the spec: the caller of the Workers handler, which chooses the session
  id it passes, is not among the sources. The spec has a rejection carry the session id
  supplied by the client, or a freshly generated one if absent; \<open>uuid\<close> is the
  freshly generated value. The Hono middleware computes the same expression itself.
\<close>

definition resolveSessionId :: "Request \<Rightarrow> string \<Rightarrow> string" where
  "resolveSessionId req uuid =
     (case headers req ''mcp-session-id'' of Some v \<Rightarrow> v | None \<Rightarrow> uuid)"

text \<open>
  Modelled from the spec: the validators of \<^verbatim>\<open>shared/mcp/security.js\<close> are not among
  the sources. The spec has the \<^verbatim>\<open>Origin\<close> header match an allowed value, a loopback
  address unless development mode is active, and a protocol-version header, if present,
  equal the version the server supports. The texts of the errors are not given, and
  a request without an \<^verbatim>\<open>Origin\<close> header is let through. These two stand for the
  validators where a theorem needs concrete ones; the theorems about every request take
  the validators as an argument.
\<close>

definition spec_validateOrigin :: "Headers \<Rightarrow> bool \<Rightarrow> string option" where
  "spec_validateOrigin h isDev =
     (case h ''origin'' of
        None \<Rightarrow> None
      | Some v \<Rightarrow>
          if isDev \<or> v = ''http://127.0.0.1'' \<or> v = ''http://localhost'' then None
          else Some ''Origin not allowed'')"

text \<open>
  Modelled from the spec: a protocol-version header, if present, must equal the single
  version the server supports.
\<close>

definition spec_validateProtocolVersion :: "Headers \<Rightarrow> string \<Rightarrow> string option" where
  "spec_validateProtocolVersion h supported =
     (case h ''mcp-protocol-version'' of
        None \<Rightarrow> None
      | Some v \<Rightarrow> if v = supported then None else Some ''Unsupported protocol version'')"

text \<open>Modelled from the spec: the two validators above, as the adapters are passed them.\<close>

definition spec_security :: Security where
  "spec_security =
     \<lparr>validateOrigin = spec_validateOrigin,
      validateProtocolVersion = spec_validateProtocolVersion\<rparr>"

text \<open>
  A token as a client presents it: not empty and free of white space (the tokens of
  RFC 6750 are of this kind).
\<close>

definition wellformed_token :: "string \<Rightarrow> bool" where
  "wellformed_token token = (token \<noteq> [] \<and> \<not> list_ex js_whitespace token)"

text \<open>What the client sees of the Hono middleware: no response of its own, or one.\<close>

definition hono_decision :: "HonoResult \<Rightarrow> Response option" where
  "hono_decision r = (case r of Next _ \<Rightarrow> None | Respond resp \<Rightarrow> Some resp)"

text \<open>A production environment with the given strategy selector and bearer secret.\<close>

definition sample_env :: "string option \<Rightarrow> string option \<Rightarrow> Env" where
  "sample_env selector secret =
     \<lparr>env_NODE_ENV = Some ''production'', env_MCP_PROTOCOL_VERSION = JUndefined,
      env_AUTH_STRATEGY = selector, env_AUTH_ENABLED = JUndefined,
      env_BEARER_TOKEN = secret\<rparr>"

definition sample_request :: "(string \<times> string) list \<Rightarrow> Request" where
  "sample_request hs = \<lparr>url_origin = ''http://127.0.0.1:3000'', headers = map_of hs\<rparr>"



definition failing_store :: KvSessionStore where
  "failing_store =
     \<lparr>kv = \<lparr>kv_entries = Map.empty, get_throws = True, put_throws = True,
             delete_throws = False\<rparr>,
      encrypt = Inr, decrypt = Inr,
      fallback = Some (MemorySessionStore_new DEFAULT_TTL_MS)\<rparr>"


text \<open>A stand-in for \<^verbatim>\<open>JSON.parse\<close> that reads back the record created at 1000.\<close>

definition sample_parse :: JSON_parse where
  "sample_parse s =
     (if s = JSON_stringify \<lparr>created_at = 1000\<rparr> then Inr (Some \<lparr>created_at = 1000\<rparr>)
      else Inl SyntaxError)"

section \<open>Properties of the session stores\<close>

subsection \<open>Helper lemmas\<close>





























subsection \<open>The claims\<close>




text \<open>
  C7. For every session id and record, on a KV-backed store whose service throws on
  every \<^verbatim>\<open>get\<close> and \<^verbatim>\<open>put\<close> and which has a fallback store, \<^verbatim>\<open>put\<close> followed by
  \<^verbatim>\<open>get\<close>, read before the fallback entry expires, returns the written record. No
  error reaches the caller: the results of \<^verbatim>\<open>put\<close> and \<^verbatim>\<open>get\<close> have no error
  case, every throw being caught inside them.
\<close>

theorem failing_service_put_then_get_served_by_fallback:
  assumes "get_throws (kv st)" and "put_throws (kv st)"
    and "fallback st = Some f" and "t_get \<le> t_put + ttlMs f"
  shows "snd (KvSessionStore_get parse (KvSessionStore_put st i r t_put) i t_get) = Some r
         \<and> map_option (\<lambda>m. map_option srecord (sessions m i))
             (fallback (KvSessionStore_put st i r t_put)) = Some (Some r)"
  using assms
  by (simp add: KvSessionStore_get_def KvSessionStore_put_def KVNamespace_get_def
      KVNamespace_put_def fallback_get_def fallback_put_def MemorySessionStore_get_def
      MemorySessionStore_put_def split: sum.splits)

theorem failing_service_put_then_get_witness:
  "snd (KvSessionStore_get sample_parse
          (KvSessionStore_put failing_store ''s1'' \<lparr>created_at = 7\<rparr> 10) ''s1'' 20) =
     Some \<lparr>created_at = 7\<rparr>"
proof -
  have g: "get_throws (kv failing_store)" and p: "put_throws (kv failing_store)"
    and f: "fallback failing_store = Some (MemorySessionStore_new DEFAULT_TTL_MS)"
    by (simp_all add: failing_store_def)
  have t: "(20::int) \<le> 10 + ttlMs (MemorySessionStore_new DEFAULT_TTL_MS)"
    by (simp add: MemorySessionStore_new_def DEFAULT_TTL_MS_def)
  from failing_service_put_then_get_served_by_fallback[OF g p f t]
  show ?thesis by simp
qed

text \<open>
  C8. With a time-to-live of 1000 ms, a record written by \<^verbatim>\<open>put\<close> at time 0 is
  returned by \<^verbatim>\<open>get\<close> at time 999 and reported absent by \<^verbatim>\<open>get\<close> at time 1001,
  whatever the store held before and whatever the session id and the record are.
\<close>

theorem ttl_1000_present_at_999_absent_at_1001:
  "snd (MemorySessionStore_get
          (MemorySessionStore_put (s\<lparr>ttlMs := 1000\<rparr>) i r 0) i 999) = Some r
   \<and> snd (MemorySessionStore_get
          (MemorySessionStore_put (s\<lparr>ttlMs := 1000\<rparr>) i r 0) i 1001) = None"
  by (simp add: MemorySessionStore_get_def MemorySessionStore_put_def)

text \<open>
  C10. When the map of the in-memory store holds an entry for the id, expired or not,
  \<^verbatim>\<open>ensure\<close> leaves the store unchanged; if the entry has expired, it is not
  refreshed, and a later \<^verbatim>\<open>get\<close> still returns absent.
\<close>

theorem ensure_does_not_refresh_expired_entry:
  "sessions s i = Some e \<Longrightarrow>
     MemorySessionStore_ensure s i now = s
     \<and> (expiresAt e < now \<and> now \<le> now' \<longrightarrow>
          snd (MemorySessionStore_get (MemorySessionStore_ensure s i now) i now') = None)"
  by (simp add: MemorySessionStore_ensure_def MemorySessionStore_get_def)

theorem ensure_does_not_refresh_expired_entry_witness:
  "MemorySessionStore_ensure
      (MemorySessionStore_put (MemorySessionStore_new 1000) ''s1'' \<lparr>created_at = 0\<rparr> 0)
      ''s1'' 1500 =
     MemorySessionStore_put (MemorySessionStore_new 1000) ''s1'' \<lparr>created_at = 0\<rparr> 0
   \<and> snd (MemorySessionStore_get
            (MemorySessionStore_ensure
               (MemorySessionStore_put (MemorySessionStore_new 1000) ''s1''
                  \<lparr>created_at = 0\<rparr> 0)
               ''s1'' 1500)
            ''s1'' 1600) = None"
proof -
  have e: "sessions (MemorySessionStore_put (MemorySessionStore_new 1000) ''s1''
                       \<lparr>created_at = 0\<rparr> 0) ''s1'' =
             Some \<lparr>srecord = \<lparr>created_at = 0\<rparr>, expiresAt = 1000\<rparr>"
    by (simp add: MemorySessionStore_put_def MemorySessionStore_new_def)
  have x: "expiresAt \<lparr>srecord = \<lparr>created_at = 0\<rparr>, expiresAt = 1000\<rparr> < (1500::int)
           \<and> (1500::int) \<le> 1600"
    by simp
  from ensure_does_not_refresh_expired_entry[OF e, of 1500 1600] x
  show ?thesis by blast
qed

section \<open>Properties of the configuration\<close>

lemma toLowerCase_false: "toLowerCase ''false'' = ''false''"
  by (simp add: toLowerCase_def toLowerCase_char_def upper_case_def lower_case_def)

lemma toLowerCase_true: "toLowerCase ''true'' = ''true''"
  by (simp add: toLowerCase_def toLowerCase_char_def upper_case_def lower_case_def)

lemma toLowerCase_Nil: "toLowerCase [] = []"
  by (simp add: toLowerCase_def)

lemma parseBoolean_iff:
  "parseBoolean v = (v = JBoolean True \<or> (\<exists>s. v = JString s \<and> toLowerCase s = ''true''))"
proof (cases v)
  case JUndefined
  then show ?thesis by (simp add: parseBoolean_def js_or_def toLowerCase_false)
next
  case JNull
  then show ?thesis by (simp add: parseBoolean_def js_or_def toLowerCase_false)
next
  case (JBoolean b)
  then show ?thesis
    by (cases b) (simp_all add: parseBoolean_def js_or_def toLowerCase_false toLowerCase_true)
next
  case (JString s)
  then show ?thesis
    by (cases "s = []")
      (simp_all add: parseBoolean_def js_or_def toLowerCase_false toLowerCase_Nil)
qed

lemma truthy_iff: "truthy v = (\<exists>s. v = Some s \<and> s \<noteq> [])"
  by (cases v) simp_all

lemma parseConfig_enabled:
  "AUTH_ENABLED (parseConfig env) = (AUTH_STRATEGY (parseConfig env) = StrategyBearer)"
  by (simp add: parseConfig_def Let_def)

text \<open>
  C9. For every raw environment the resolved strategy is \<^verbatim>\<open>none\<close> if the strategy
  selector, lowercased, is \<^verbatim>\<open>"none"\<close> or the enable flag is the string
  \<^verbatim>\<open>"false"\<close> or the boolean \<^verbatim>\<open>false\<close>; otherwise \<^verbatim>\<open>bearer\<close> if a bearer secret
  is set (a non-empty string) or the enable flag parses to true (it is the boolean
  \<^verbatim>\<open>true\<close> or a string that lowercases to \<^verbatim>\<open>"true"\<close>); otherwise \<^verbatim>\<open>none\<close>. The
  parsed configuration carries that strategy, and its \<^verbatim>\<open>AUTH_ENABLED\<close> is true
  exactly when the strategy is \<^verbatim>\<open>bearer\<close>.
\<close>

theorem auth_strategy_resolution:
  "parseAuthStrategy env =
     (if map_option toLowerCase (env_AUTH_STRATEGY env) = Some ''none''
         \<or> env_AUTH_ENABLED env = JString ''false''
         \<or> env_AUTH_ENABLED env = JBoolean False
      then StrategyNone
      else if (\<exists>secret. env_BEARER_TOKEN env = Some secret \<and> secret \<noteq> [])
              \<or> env_AUTH_ENABLED env = JBoolean True
              \<or> (\<exists>s. env_AUTH_ENABLED env = JString s \<and> toLowerCase s = ''true'')
      then StrategyBearer
      else StrategyNone)
   \<and> AUTH_STRATEGY (parseConfig env) = parseAuthStrategy env
   \<and> AUTH_ENABLED (parseConfig env) = (parseAuthStrategy env = StrategyBearer)"
proof -
  have "parseAuthStrategy env =
     (if map_option toLowerCase (env_AUTH_STRATEGY env) = Some ''none''
         \<or> env_AUTH_ENABLED env = JString ''false''
         \<or> env_AUTH_ENABLED env = JBoolean False
      then StrategyNone
      else if (\<exists>secret. env_BEARER_TOKEN env = Some secret \<and> secret \<noteq> [])
              \<or> env_AUTH_ENABLED env = JBoolean True
              \<or> (\<exists>s. env_AUTH_ENABLED env = JString s \<and> toLowerCase s = ''true'')
      then StrategyBearer
      else StrategyNone)"
    unfolding parseAuthStrategy_def Let_def truthy_iff parseBoolean_iff by simp
  moreover have "AUTH_STRATEGY (parseConfig env) = parseAuthStrategy env"
    by (simp add: parseConfig_def Let_def)
  moreover have "AUTH_ENABLED (parseConfig env) = (parseAuthStrategy env = StrategyBearer)"
    by (simp add: parseConfig_def Let_def)
  ultimately show ?thesis by blast
qed

section \<open>Properties of the request gate\<close>

subsection \<open>Token extraction\<close>

lemma toLowerCase_Bearer: "toLowerCase ''Bearer'' = ''bearer''"
  by (simp add: toLowerCase_def toLowerCase_char_def upper_case_def lower_case_def)

lemma dropWhile_none: "\<not> list_ex P xs \<Longrightarrow> dropWhile P xs = xs"
  by (cases xs) (simp_all add: list_ex_iff)

lemma takeWhile_head: "xs \<noteq> [] \<Longrightarrow> \<not> P (hd xs) \<Longrightarrow> takeWhile P xs = []"
  by (cases xs) simp_all

lemma trim_wellformed: "\<not> list_ex js_whitespace s \<Longrightarrow> trim s = s"
  by (simp add: trim_def dropWhile_none list_ex_iff)

lemma String_split_no_sep: "sep \<notin> set s \<Longrightarrow> String_split sep s = [s]"
  by (induction s) auto

lemma space_is_whitespace: "js_whitespace (CHR '' '')"
  by (simp add: js_whitespace_def)

lemma wellformed_no_space: "wellformed_token t \<Longrightarrow> CHR '' '' \<notin> set t"
  using space_is_whitespace by (auto simp: wellformed_token_def list_ex_iff)

lemma hono_bearer_wellformed:
  assumes "wellformed_token t"
  shows "hono_bearer (''Bearer '' @ t) = Some t"
proof -
  have "String_split (CHR '' '') (''Bearer '' @ t) = [''Bearer'', t]"
    using wellformed_no_space[OF assms] by (simp add: String_split_no_sep)
  moreover have "trim t = t"
    using assms by (simp add: wellformed_token_def trim_wellformed)
  ultimately show ?thesis
    by (simp add: hono_bearer_def String_split_limit_def toLowerCase_Bearer)
qed

lemma match_bearer_wellformed:
  assumes "wellformed_token t"
  shows "match_bearer (''Bearer '' @ t) = Some t"
proof -
  from assms have ne: "t \<noteq> []" and nows: "\<not> list_ex js_whitespace t"
    by (simp_all add: wellformed_token_def)
  from ne nows have hd: "\<not> js_whitespace (hd t)"
    by (cases t) (simp_all add: list_ex_iff)
  have tw: "takeWhile js_whitespace t = []"
    using ne hd by (rule takeWhile_head)
  have dw: "dropWhile js_whitespace t = t"
    using nows by (rule dropWhile_none)
  have nolt: "\<not> list_ex line_terminator t"
    using nows by (auto simp: list_ex_iff line_terminator_def js_whitespace_def)
  have B: "\<not> js_whitespace (CHR ''B'')"
    by (simp add: js_whitespace_def)
  show ?thesis
    using ne nolt
    by (simp add: match_bearer_def B space_is_whitespace toLowerCase_Bearer tw dw)
qed

lemma workers_bearer_wellformed:
  "wellformed_token t \<Longrightarrow> workers_bearer (Some (''Bearer '' @ t)) = Some t"
  using match_bearer_wellformed[of t]
  by (simp add: workers_bearer_def trim_wellformed wellformed_token_def)

subsection \<open>Responses\<close>

lemma challengeResponse_fields:
  "status (challengeResponse orig i m) = 401"
  "Mcp_Session_Id (challengeResponse orig i m) = Some i"
  "WWW_Authenticate (challengeResponse orig i m) =
     Some (challenge_WWW_Authenticate
             (buildUnauthorizedChallenge \<lparr>origin = orig, sid = i, message = m\<rparr>))"
  "body (challengeResponse orig i m) = Unauthorized m"
  by (simp_all add: challengeResponse_def Let_def)
    (simp_all add: buildUnauthorizedChallenge_def)

lemma buildChallengeResponse_fields:
  "status (buildChallengeResponse orig i m) = 401"
  "Mcp_Session_Id (buildChallengeResponse orig i m) = Some i"
  "WWW_Authenticate (buildChallengeResponse orig i m) =
     Some (challenge_WWW_Authenticate
             (buildUnauthorizedChallenge \<lparr>origin = orig, sid = i, message = m\<rparr>))"
  "body (buildChallengeResponse orig i m) = Unauthorized m"
  by (simp_all add: buildChallengeResponse_def Let_def)
    (simp_all add: buildUnauthorizedChallenge_def)

lemma same_challenge: "challengeResponse orig i m = buildChallengeResponse orig i m"
  by (simp add: challengeResponse_def buildChallengeResponse_def)

subsection \<open>The adapters, case by case\<close>

lemma validation_failure:
  assumes "validate sec req config = Some m"
  shows "createMcpSecurityMiddleware sec config req uuid =
           Respond \<lparr>status = 500, Mcp_Session_Id = None, WWW_Authenticate = None,
                    body = JsonRpcError (- 32603)
                             (if m = [] then ''Internal server error'' else m)\<rparr>"
    and "checkAuthAndChallenge sec req config i =
           Some (buildChallengeResponse (url_origin req) i (Some m))"
  using assms
  by (simp_all add: createMcpSecurityMiddleware_def checkAuthAndChallenge_def)

lemma no_auth_required:
  assumes "validate sec req config = None"
    and "\<not> AUTH_ENABLED config \<or> AUTH_STRATEGY config = StrategyNone"
  shows "createMcpSecurityMiddleware sec config req uuid = Next None"
    and "checkAuthAndChallenge sec req config i = None"
  using assms
  by (auto simp: createMcpSecurityMiddleware_def checkAuthAndChallenge_def)

lemma no_authorization_header:
  assumes "validate sec req config = None"
    and "AUTH_ENABLED config" and "AUTH_STRATEGY config = StrategyBearer"
    and "headers req ''authorization'' = None"
  shows "createMcpSecurityMiddleware sec config req uuid =
           Respond (challengeResponse (url_origin req) (resolveSessionId req uuid) None)"
    and "checkAuthAndChallenge sec req config i =
           Some (buildChallengeResponse (url_origin req) i None)"
  using assms
  by (simp_all add: createMcpSecurityMiddleware_def checkAuthAndChallenge_def
      resolveSessionId_def workers_bearer_def Let_def)

lemma hono_bearer_case:
  assumes "AUTH_STRATEGY (parseConfig env) = StrategyBearer"
    and "BEARER_TOKEN (parseConfig env) = Some secret" and "secret \<noteq> []"
    and "validate sec req (parseConfig env) = None"
    and "headers req ''authorization'' = Some (''Bearer '' @ t)" and "wellformed_token t"
  shows "createMcpSecurityMiddleware sec (parseConfig env) req uuid =
           (if t = secret
            then Next (Some \<lparr>strategy = StrategyBearer,
                             authHeaders_authorization = ''Bearer '' @ t,
                             resolvedHeaders_authorization = ''Bearer '' @ t\<rparr>)
            else Respond (challengeResponse (url_origin req) (resolveSessionId req uuid)
                            (Some ''Invalid token'')))"
proof -
  have en: "AUTH_ENABLED (parseConfig env)"
    using assms(1) by (simp add: parseConfig_enabled)
  have ne: "t \<noteq> []" using assms(6) by (simp add: wellformed_token_def)
  show ?thesis
    using assms(1-5) en ne
    by (simp add: createMcpSecurityMiddleware_def hono_bearer_wellformed[OF assms(6), simplified]
        resolveSessionId_def Let_def)
qed

lemma workers_bearer_case:
  assumes "AUTH_STRATEGY (parseConfig env) = StrategyBearer"
    and "BEARER_TOKEN (parseConfig env) = Some secret" and "secret \<noteq> []"
    and "validate sec req (parseConfig env) = None"
    and "headers req ''authorization'' = Some (''Bearer '' @ t)" and "wellformed_token t"
  shows "checkAuthAndChallenge sec req (parseConfig env) i =
           (if t = secret then None
            else Some (buildChallengeResponse (url_origin req) i (Some ''Invalid token'')))"
proof -
  have en: "AUTH_ENABLED (parseConfig env)"
    using assms(1) by (simp add: parseConfig_enabled)
  have ne: "t \<noteq> []" using assms(6) by (simp add: wellformed_token_def)
  show ?thesis
    using assms(1-5) en ne
    by (simp add: checkAuthAndChallenge_def workers_bearer_wellformed[OF assms(6), simplified]
        Let_def)
qed

lemma hono_bearer_two_spaces: "hono_bearer (''Bearer  '' @ t) = Some []"
  by (simp add: hono_bearer_def String_split_limit_def toLowerCase_Bearer trim_def
      split: list.splits)

lemma match_bearer_two_spaces:
  assumes "wellformed_token t"
  shows "match_bearer (''Bearer  '' @ t) = Some t"
proof -
  from assms have ne: "t \<noteq> []" and nows: "\<not> list_ex js_whitespace t"
    by (simp_all add: wellformed_token_def)
  from ne nows have hd: "\<not> js_whitespace (hd t)"
    by (cases t) (simp_all add: list_ex_iff)
  have tw: "takeWhile js_whitespace t = []"
    using ne hd by (rule takeWhile_head)
  have dw: "dropWhile js_whitespace t = t"
    using nows by (rule dropWhile_none)
  have nolt: "\<not> list_ex line_terminator t"
    using nows by (auto simp: list_ex_iff line_terminator_def js_whitespace_def)
  have B: "\<not> js_whitespace (CHR ''B'')"
    by (simp add: js_whitespace_def)
  show ?thesis
    using ne nolt
    by (simp add: match_bearer_def B space_is_whitespace toLowerCase_Bearer tw dw)
qed

lemma workers_bearer_two_spaces:
  "wellformed_token t \<Longrightarrow> workers_bearer (Some (''Bearer  '' @ t)) = Some t"
  using match_bearer_two_spaces[of t]
  by (simp add: workers_bearer_def trim_wellformed wellformed_token_def)

lemma hono_two_spaces:
  assumes "AUTH_STRATEGY (parseConfig env) = StrategyBearer"
    and "validate sec req (parseConfig env) = None"
    and "headers req ''authorization'' = Some (''Bearer  '' @ t)"
  shows "createMcpSecurityMiddleware sec (parseConfig env) req uuid =
           Respond (challengeResponse (url_origin req) (resolveSessionId req uuid)
                      (Some ''Bearer token required''))"
proof -
  have en: "AUTH_ENABLED (parseConfig env)"
    using assms(1) by (simp add: parseConfig_enabled)
  show ?thesis
    using assms en
    by (simp add: createMcpSecurityMiddleware_def hono_bearer_two_spaces[simplified]
        resolveSessionId_def Let_def)
qed

lemma workers_two_spaces:
  assumes "AUTH_STRATEGY (parseConfig env) = StrategyBearer"
    and "BEARER_TOKEN (parseConfig env) = Some secret" and "secret \<noteq> []"
    and "validate sec req (parseConfig env) = None"
    and "headers req ''authorization'' = Some (''Bearer  '' @ t)" and "wellformed_token t"
  shows "checkAuthAndChallenge sec req (parseConfig env) i =
           (if t = secret then None
            else Some (buildChallengeResponse (url_origin req) i (Some ''Invalid token'')))"
proof -
  have en: "AUTH_ENABLED (parseConfig env)"
    using assms(1) by (simp add: parseConfig_enabled)
  have ne: "t \<noteq> []" using assms(6) by (simp add: wellformed_token_def)
  show ?thesis
    using assms(1-5) en ne
    by (simp add: checkAuthAndChallenge_def workers_bearer_two_spaces[OF assms(6), simplified]
        Let_def)
qed

subsection \<open>Sample data\<close>

lemma parseConfig_sample_bearer:
  "secret \<noteq> [] \<Longrightarrow>
   parseConfig (sample_env None (Some secret)) =
     \<lparr>NODE_ENV = ''production'', MCP_PROTOCOL_VERSION = ''2025-06-18'',
      AUTH_STRATEGY = StrategyBearer, AUTH_ENABLED = True, BEARER_TOKEN = Some secret\<rparr>"
  by (simp add: parseConfig_def parseAuthStrategy_def sample_env_def js_or_def Let_def)

lemma toLowerCase_none: "toLowerCase ''none'' = ''none''"
  by (simp add: toLowerCase_def toLowerCase_char_def upper_case_def lower_case_def)

lemma parseConfig_sample_none:
  "parseConfig (sample_env (Some ''none'') None) =
     \<lparr>NODE_ENV = ''production'', MCP_PROTOCOL_VERSION = ''2025-06-18'',
      AUTH_STRATEGY = StrategyNone, AUTH_ENABLED = False, BEARER_TOKEN = None\<rparr>"
  by (simp add: parseConfig_def parseAuthStrategy_def sample_env_def js_or_def Let_def
      toLowerCase_none)

lemma validate_sample_loopback:
  "NODE_ENV config = ''production'' \<Longrightarrow>
   validate spec_security (sample_request ((''origin'', ''http://127.0.0.1'') # hs)) config =
     (case map_of hs ''mcp-protocol-version'' of
        None \<Rightarrow> None
      | Some v \<Rightarrow>
          if v = MCP_PROTOCOL_VERSION config then None
          else Some ''Unsupported protocol version'')"
  by (simp add: validate_def spec_security_def spec_validateOrigin_def
      spec_validateProtocolVersion_def sample_request_def)

lemma validate_sample_foreign:
  "NODE_ENV config = ''production'' \<Longrightarrow>
   validate spec_security (sample_request ((''origin'', ''http://evil.example'') # hs)) config =
     Some ''Origin not allowed''"
  by (simp add: validate_def spec_security_def spec_validateOrigin_def sample_request_def)

subsection \<open>The claims\<close>

text \<open>
  C1. A request whose origin check fails, here one with the header
  \<^verbatim>\<open>Origin: http://evil.example\<close> in production mode, gets status 500 with the
  JSON-RPC code -32603 and no challenge headers from the Hono middleware, whose
  \<^verbatim>\<open>catch\<close> block takes the error the validator throws; the Workers handler answers
  the same request with the 401 challenge.
\<close>

theorem rejected_origin_hono_500_workers_401:
  "createMcpSecurityMiddleware spec_security (parseConfig (sample_env None (Some ''abc123'')))
     (sample_request [(''origin'', ''http://evil.example''),
                      (''authorization'', ''Bearer abc123'')]) ''uuid-1'' =
     Respond \<lparr>status = 500, Mcp_Session_Id = None, WWW_Authenticate = None,
              body = JsonRpcError (- 32603) ''Origin not allowed''\<rparr>
   \<and> checkAuthAndChallenge spec_security
       (sample_request [(''origin'', ''http://evil.example''),
                        (''authorization'', ''Bearer abc123'')])
       (parseConfig (sample_env None (Some ''abc123''))) ''uuid-1'' =
       Some (buildChallengeResponse ''http://127.0.0.1:3000'' ''uuid-1''
               (Some ''Origin not allowed''))
   \<and> status (buildChallengeResponse ''http://127.0.0.1:3000'' ''uuid-1''
               (Some ''Origin not allowed'')) = 401"
proof -
  have v: "validate spec_security
             (sample_request [(''origin'', ''http://evil.example''),
                              (''authorization'', ''Bearer abc123'')])
             (parseConfig (sample_env None (Some ''abc123''))) = Some ''Origin not allowed''"
    by (rule validate_sample_foreign) (simp add: parseConfig_sample_bearer)
  show ?thesis
    using validation_failure[OF v]
    by (simp add: buildChallengeResponse_fields sample_request_def)
qed

theorem rejected_origin_hono_500_witness:
  "map_option status
     (hono_decision
        (createMcpSecurityMiddleware spec_security
           (parseConfig (sample_env None (Some ''abc123'')))
           (sample_request [(''origin'', ''http://evil.example''),
                            (''authorization'', ''Bearer abc123'')]) ''uuid-1'')) = Some 500"
  using rejected_origin_hono_500_workers_401 by (simp add: hono_decision_def)

text \<open>
  C2. On \<^verbatim>\<open>Authorization: Bearer  abc\<close>, with two spaces, and the secret
  \<^verbatim>\<open>abc\<close>, the two adapters disagree: the Hono middleware's
  \<^verbatim>\<open>split(' ', 2)\<close> yields the empty string for the token, and it answers with the
  challenge \<^verbatim>\<open>Bearer token required\<close>; the Workers handler's regular expression
  yields \<^verbatim>\<open>abc\<close>, and it admits the request.
\<close>

theorem adapters_disagree_on_two_spaces:
  "hono_bearer ''Bearer  abc'' = Some []
   \<and> workers_bearer (Some ''Bearer  abc'') = Some ''abc''
   \<and> createMcpSecurityMiddleware spec_security (parseConfig (sample_env None (Some ''abc'')))
       (sample_request [(''origin'', ''http://127.0.0.1''),
                        (''authorization'', ''Bearer  abc'')]) ''uuid-1'' =
       Respond (challengeResponse ''http://127.0.0.1:3000'' ''uuid-1''
                  (Some ''Bearer token required''))
   \<and> checkAuthAndChallenge spec_security
       (sample_request [(''origin'', ''http://127.0.0.1''),
                        (''authorization'', ''Bearer  abc'')])
       (parseConfig (sample_env None (Some ''abc''))) ''uuid-1'' = None"
proof -
  let ?req = "sample_request [(''origin'', ''http://127.0.0.1''),
                              (''authorization'', ''Bearer  abc'')]"
  let ?cfg = "parseConfig (sample_env None (Some ''abc''))"
  have hb: "hono_bearer ''Bearer  abc'' = Some []"
    by (simp add: hono_bearer_def String_split_limit_def toLowerCase_Bearer trim_def)
  have mb: "match_bearer ''Bearer  abc'' = Some ''abc''"
    by (simp add: match_bearer_def js_whitespace_def line_terminator_def toLowerCase_Bearer)
  have wb: "workers_bearer (Some ''Bearer  abc'') = Some ''abc''"
    by (simp add: workers_bearer_def mb trim_def js_whitespace_def)
  have v: "validate spec_security ?req ?cfg = None"
    by (simp add: validate_sample_loopback parseConfig_sample_bearer)
  have a: "headers ?req ''authorization'' = Some ''Bearer  abc''"
    and o: "url_origin ?req = ''http://127.0.0.1:3000''"
    and m: "headers ?req ''mcp-session-id'' = None"
    by (simp_all add: sample_request_def)
  have c: "AUTH_ENABLED ?cfg" "AUTH_STRATEGY ?cfg = StrategyBearer"
    "BEARER_TOKEN ?cfg = Some ''abc''"
    by (simp_all add: parseConfig_sample_bearer)
  have H: "createMcpSecurityMiddleware spec_security ?cfg ?req ''uuid-1'' =
             Respond (challengeResponse ''http://127.0.0.1:3000'' ''uuid-1''
                        (Some ''Bearer token required''))"
    by (simp add: createMcpSecurityMiddleware_def v a o m hb c)
  have W: "checkAuthAndChallenge spec_security ?req ?cfg ''uuid-1'' = None"
    by (simp add: checkAuthAndChallenge_def v a wb c)
  from hb wb H W show ?thesis by blast
qed

theorem adapters_disagree_on_two_spaces_witness:
  "hono_decision
     (createMcpSecurityMiddleware spec_security (parseConfig (sample_env None (Some ''abc'')))
        (sample_request [(''origin'', ''http://127.0.0.1''),
                         (''authorization'', ''Bearer  abc'')]) ''uuid-1'') \<noteq>
   checkAuthAndChallenge spec_security
     (sample_request [(''origin'', ''http://127.0.0.1''),
                      (''authorization'', ''Bearer  abc'')])
     (parseConfig (sample_env None (Some ''abc''))) ''uuid-1''"
  using adapters_disagree_on_two_spaces by (simp add: hono_decision_def)

text \<open>
  C3. With the secret \<^verbatim>\<open>abc123\<close>, the header
  \<^verbatim>\<open>Authorization: Bearer  abc123\<close>, well formed with two spaces before the token,
  presents the secret, and the Hono middleware rejects it with status 401 and the
  message \<^verbatim>\<open>Bearer token required\<close>, while the Workers handler admits it. With one
  space the Hono middleware admits the same token and attaches the bearer auth
  context.
\<close>

theorem hono_rejects_matching_token_after_two_spaces:
  "createMcpSecurityMiddleware spec_security (parseConfig (sample_env None (Some ''abc123'')))
     (sample_request [(''origin'', ''http://127.0.0.1''),
                      (''authorization'', ''Bearer  abc123'')]) ''uuid-1'' =
     Respond (challengeResponse ''http://127.0.0.1:3000'' ''uuid-1''
                (Some ''Bearer token required''))
   \<and> status (challengeResponse ''http://127.0.0.1:3000'' ''uuid-1''
               (Some ''Bearer token required'')) = 401
   \<and> checkAuthAndChallenge spec_security
       (sample_request [(''origin'', ''http://127.0.0.1''),
                        (''authorization'', ''Bearer  abc123'')])
       (parseConfig (sample_env None (Some ''abc123''))) ''uuid-1'' = None
   \<and> createMcpSecurityMiddleware spec_security
       (parseConfig (sample_env None (Some ''abc123'')))
       (sample_request [(''origin'', ''http://127.0.0.1''),
                        (''authorization'', ''Bearer abc123'')]) ''uuid-1'' =
       Next (Some \<lparr>strategy = StrategyBearer,
                   authHeaders_authorization = ''Bearer abc123'',
                   resolvedHeaders_authorization = ''Bearer abc123''\<rparr>)"
proof -
  let ?cfg = "parseConfig (sample_env None (Some ''abc123''))"
  let ?two = "sample_request [(''origin'', ''http://127.0.0.1''),
                              (''authorization'', ''Bearer  abc123'')]"
  let ?one = "sample_request [(''origin'', ''http://127.0.0.1''),
                              (''authorization'', ''Bearer abc123'')]"
  have s: "AUTH_STRATEGY ?cfg = StrategyBearer" and b: "BEARER_TOKEN ?cfg = Some ''abc123''"
    and n: "''abc123'' \<noteq> []"
    by (simp_all add: parseConfig_sample_bearer)
  have w: "wellformed_token ''abc123''"
    by (simp add: wellformed_token_def js_whitespace_def)
  have v2: "validate spec_security ?two ?cfg = None"
    and v1: "validate spec_security ?one ?cfg = None"
    by (simp_all add: validate_sample_loopback parseConfig_sample_bearer)
  have a2: "headers ?two ''authorization'' = Some (''Bearer  '' @ ''abc123'')"
    and a1: "headers ?one ''authorization'' = Some (''Bearer '' @ ''abc123'')"
    and o: "url_origin ?two = ''http://127.0.0.1:3000''"
    and r: "resolveSessionId ?two ''uuid-1'' = ''uuid-1''"
    by (simp_all add: sample_request_def resolveSessionId_def)
  have 1: "createMcpSecurityMiddleware spec_security ?cfg ?two ''uuid-1'' =
             Respond (challengeResponse ''http://127.0.0.1:3000'' ''uuid-1''
                        (Some ''Bearer token required''))"
    using hono_two_spaces[OF s v2 a2, of "''uuid-1''"] by (simp add: o r)
  have 2: "status (challengeResponse ''http://127.0.0.1:3000'' ''uuid-1''
                     (Some ''Bearer token required'')) = 401"
    by (simp add: challengeResponse_fields)
  have 3: "checkAuthAndChallenge spec_security ?two ?cfg ''uuid-1'' = None"
    using workers_two_spaces[OF s b n v2 a2 w, of "''uuid-1''"] by simp
  have 4: "createMcpSecurityMiddleware spec_security ?cfg ?one ''uuid-1'' =
             Next (Some \<lparr>strategy = StrategyBearer,
                         authHeaders_authorization = ''Bearer abc123'',
                         resolvedHeaders_authorization = ''Bearer abc123''\<rparr>)"
    using hono_bearer_case[OF s b n v1 a1 w, of "''uuid-1''"] by simp
  from 1 2 3 4 show ?thesis by blast
qed

theorem hono_rejects_matching_token_after_two_spaces_witness:
  "map_option status
     (hono_decision
        (createMcpSecurityMiddleware spec_security
           (parseConfig (sample_env None (Some ''abc123'')))
           (sample_request [(''origin'', ''http://127.0.0.1''),
                            (''authorization'', ''Bearer  abc123'')]) ''uuid-1'')) = Some 401"
  using hono_rejects_matching_token_after_two_spaces by (simp add: hono_decision_def)

text \<open>
  C4. For every configuration the parser builds with strategy \<^verbatim>\<open>bearer\<close> and every
  request that passes the origin and protocol-version checks and has no
  \<^verbatim>\<open>Authorization\<close> header, each adapter answers with status 401, a
  \<^verbatim>\<open>WWW-Authenticate\<close> header, and a session-id header that is the request's session-id
  header when there is one and the freshly generated value otherwise. The Hono
  middleware resolves the session id itself; the Workers handler is passed it.
\<close>

theorem missing_authorization_is_challenged:
  assumes "AUTH_STRATEGY (parseConfig env) = StrategyBearer"
    and "validate sec req (parseConfig env) = None"
    and "headers req ''authorization'' = None"
  shows "(\<exists>r. createMcpSecurityMiddleware sec (parseConfig env) req uuid = Respond r
              \<and> status r = 401 \<and> WWW_Authenticate r \<noteq> None
              \<and> Mcp_Session_Id r =
                  Some (case headers req ''mcp-session-id'' of Some v \<Rightarrow> v | None \<Rightarrow> uuid))
         \<and> (\<exists>r. checkAuthAndChallenge sec req (parseConfig env) (resolveSessionId req uuid)
                   = Some r
              \<and> status r = 401 \<and> WWW_Authenticate r \<noteq> None
              \<and> Mcp_Session_Id r =
                  Some (case headers req ''mcp-session-id'' of Some v \<Rightarrow> v | None \<Rightarrow> uuid))"
proof -
  have en: "AUTH_ENABLED (parseConfig env)"
    using assms(1) by (simp add: parseConfig_enabled)
  show ?thesis
    using no_authorization_header[OF assms(2) en assms(1) assms(3)]
    by (simp add: challengeResponse_fields buildChallengeResponse_fields resolveSessionId_def)
qed

theorem missing_authorization_is_challenged_witness:
  "map_option Mcp_Session_Id
     (hono_decision
        (createMcpSecurityMiddleware spec_security
           (parseConfig (sample_env None (Some ''abc123'')))
           (sample_request [(''origin'', ''http://127.0.0.1''),
                            (''mcp-session-id'', ''sess-7'')]) ''uuid-1'')) =
     Some (Some ''sess-7'')
   \<and> map_option Mcp_Session_Id
       (hono_decision
          (createMcpSecurityMiddleware spec_security
             (parseConfig (sample_env None (Some ''abc123'')))
             (sample_request [(''origin'', ''http://127.0.0.1'')]) ''uuid-1'')) =
       Some (Some ''uuid-1'')
   \<and> map_option status
       (checkAuthAndChallenge spec_security
          (sample_request [(''origin'', ''http://127.0.0.1'')])
          (parseConfig (sample_env None (Some ''abc123''))) ''uuid-1'') = Some 401"
proof -
  let ?cfg = "parseConfig (sample_env None (Some ''abc123''))"
  let ?with = "sample_request [(''origin'', ''http://127.0.0.1''),
                               (''mcp-session-id'', ''sess-7'')]"
  let ?without = "sample_request [(''origin'', ''http://127.0.0.1'')]"
  have s: "AUTH_STRATEGY ?cfg = StrategyBearer"
    by (simp add: parseConfig_sample_bearer)
  have v1: "validate spec_security ?with ?cfg = None"
    and v2: "validate spec_security ?without ?cfg = None"
    by (simp_all add: validate_sample_loopback parseConfig_sample_bearer)
  have a1: "headers ?with ''authorization'' = None"
    and a2: "headers ?without ''authorization'' = None"
    and m1: "headers ?with ''mcp-session-id'' = Some ''sess-7''"
    and m2: "headers ?without ''mcp-session-id'' = None"
    by (simp_all add: sample_request_def)
  have r: "resolveSessionId ?without ''uuid-1'' = ''uuid-1''"
    by (simp add: resolveSessionId_def m2)
  from missing_authorization_is_challenged[OF s v1 a1, of "''uuid-1''"]
    missing_authorization_is_challenged[OF s v2 a2, of "''uuid-1''"]
  show ?thesis
    by (auto simp: hono_decision_def m1 m2 r)
qed

text \<open>
  C5, as amended. For every configuration the parser builds with strategy \<^verbatim>\<open>none\<close>,
  a request that passes the origin and protocol-version checks is admitted by both
  adapters, whatever its \<^verbatim>\<open>Authorization\<close> header is or is not. For every
  configuration whatever, of any strategy, a request that fails one of the two checks
  is answered by both adapters and not admitted.
\<close>

theorem strategy_none_admits_after_checks:
  "(AUTH_STRATEGY (parseConfig env) = StrategyNone
      \<and> validate sec req (parseConfig env) = None \<longrightarrow>
      createMcpSecurityMiddleware sec (parseConfig env) req uuid = Next None
      \<and> checkAuthAndChallenge sec req (parseConfig env) i = None)
   \<and> (validate sec req config \<noteq> None \<longrightarrow>
      hono_decision (createMcpSecurityMiddleware sec config req uuid) \<noteq> None
      \<and> checkAuthAndChallenge sec req config i \<noteq> None)"
proof (intro conjI impI)
  assume h: "AUTH_STRATEGY (parseConfig env) = StrategyNone
             \<and> validate sec req (parseConfig env) = None"
  then have v: "validate sec req (parseConfig env) = None"
    and s: "AUTH_STRATEGY (parseConfig env) = StrategyNone"
    by blast+
  show "createMcpSecurityMiddleware sec (parseConfig env) req uuid = Next None"
    using no_auth_required(1)[OF v] s by simp
  show "checkAuthAndChallenge sec req (parseConfig env) i = None"
    using no_auth_required(2)[OF v] s by simp
next
  assume "validate sec req config \<noteq> None"
  then obtain m where v: "validate sec req config = Some m"
    by blast
  show "hono_decision (createMcpSecurityMiddleware sec config req uuid) \<noteq> None"
    by (simp add: validation_failure(1)[OF v] hono_decision_def)
  show "checkAuthAndChallenge sec req config i \<noteq> None"
    by (simp add: validation_failure(2)[OF v])
qed

theorem strategy_none_admits_after_checks_witness:
  "createMcpSecurityMiddleware spec_security (parseConfig (sample_env (Some ''none'') None))
     (sample_request [(''origin'', ''http://127.0.0.1'')]) ''uuid-1'' = Next None
   \<and> checkAuthAndChallenge spec_security (sample_request [(''origin'', ''http://127.0.0.1'')])
       (parseConfig (sample_env (Some ''none'') None)) ''uuid-1'' = None
   \<and> hono_decision
       (createMcpSecurityMiddleware spec_security
          (parseConfig (sample_env None (Some ''abc123'')))
          (sample_request [(''origin'', ''http://evil.example'')]) ''uuid-1'') \<noteq> None
   \<and> checkAuthAndChallenge spec_security
       (sample_request [(''origin'', ''http://evil.example'')])
       (parseConfig (sample_env None (Some ''abc123''))) ''uuid-1'' \<noteq> None"
proof -
  let ?none = "parseConfig (sample_env (Some ''none'') None)"
  let ?bearer = "parseConfig (sample_env None (Some ''abc123''))"
  let ?ok = "sample_request [(''origin'', ''http://127.0.0.1'')]"
  let ?evil = "sample_request [(''origin'', ''http://evil.example'')]"
  have s: "AUTH_STRATEGY ?none = StrategyNone"
    by (simp add: parseConfig_sample_none)
  have v: "validate spec_security ?ok ?none = None"
    by (simp add: validate_sample_loopback parseConfig_sample_none)
  have e: "validate spec_security ?evil ?bearer \<noteq> None"
    using validate_sample_foreign[of ?bearer "[]"] by (simp add: parseConfig_sample_bearer)
  note A = strategy_none_admits_after_checks[where env = "sample_env (Some ''none'') None"
      and sec = spec_security and req = ?ok and uuid = "''uuid-1''" and i = "''uuid-1''"]
  note B = strategy_none_admits_after_checks[where sec = spec_security and req = ?evil
      and config = ?bearer and uuid = "''uuid-1''" and i = "''uuid-1''"]
  from A s v have 1: "createMcpSecurityMiddleware spec_security ?none ?ok ''uuid-1'' = Next None"
    and 2: "checkAuthAndChallenge spec_security ?ok ?none ''uuid-1'' = None"
    by blast+
  from B e have 3: "hono_decision
                      (createMcpSecurityMiddleware spec_security ?bearer ?evil ''uuid-1'') \<noteq> None"
    and 4: "checkAuthAndChallenge spec_security ?evil ?bearer ''uuid-1'' \<noteq> None"
    by blast+
  from 1 2 3 4 show ?thesis by blast
qed

text \<open>
  C5 as stated fails: with strategy \<^verbatim>\<open>none\<close>, a request without
  \<^verbatim>\<open>Authorization\<close> whose \<^verbatim>\<open>Origin\<close> is not an allowed one is not admitted. The
  Workers handler answers with the 401 challenge and the Hono middleware with status
  500; the origin check comes before the strategy is looked at.
\<close>

theorem strategy_none_rejects_invalid_origin:
  "AUTH_STRATEGY (parseConfig (sample_env (Some ''none'') None)) = StrategyNone
   \<and> headers (sample_request [(''origin'', ''http://evil.example'')]) ''authorization'' = None
   \<and> map_option status
       (checkAuthAndChallenge spec_security
          (sample_request [(''origin'', ''http://evil.example'')])
          (parseConfig (sample_env (Some ''none'') None)) ''uuid-1'') = Some 401
   \<and> map_option status
       (hono_decision
          (createMcpSecurityMiddleware spec_security
             (parseConfig (sample_env (Some ''none'') None))
             (sample_request [(''origin'', ''http://evil.example'')]) ''uuid-1'')) = Some 500"
proof -
  let ?cfg = "parseConfig (sample_env (Some ''none'') None)"
  let ?req = "sample_request [(''origin'', ''http://evil.example'')]"
  have v: "validate spec_security ?req ?cfg = Some ''Origin not allowed''"
    by (rule validate_sample_foreign) (simp add: parseConfig_sample_none)
  have 1: "AUTH_STRATEGY ?cfg = StrategyNone"
    by (simp add: parseConfig_sample_none)
  have 2: "headers ?req ''authorization'' = None"
    by (simp add: sample_request_def)
  have 3: "map_option status (checkAuthAndChallenge spec_security ?req ?cfg ''uuid-1'') = Some 401"
    unfolding validation_failure(2)[OF v] by (simp add: buildChallengeResponse_fields)
  have 4: "map_option status
             (hono_decision (createMcpSecurityMiddleware spec_security ?cfg ?req ''uuid-1'')) =
           Some 500"
    unfolding validation_failure(1)[OF v] by (simp add: hono_decision_def)
  from 1 2 3 4 show ?thesis by blast
qed

end
